theory Spec2Isabelle
  imports Complex_Main "HOL-Library.Log_Nat" "HOL-Library.Multiset"
begin

section \<open>Python values\<close>

subsection \<open>Strings\<close>

text \<open>
  A Python \<open>str\<close> is a sequence of Unicode code points, and \<open>len\<close>, \<open>in\<close>,
  \<open>partition\<close>, \<open>split\<close> and \<open>strip\<close> all work on code points. A string is
  therefore a list of code points (natural numbers); \<open>u\<close> turns an ASCII literal into
  one.
\<close>

type_synonym ustr = "nat list"

definition u :: "string \<Rightarrow> ustr" where
  "u s = map of_char s"

text \<open>
  \<open>str.isspace\<close>, which decides what \<open>strip()\<close> and \<open>split()\<close> treat as
  whitespace, and the line boundaries of \<open>splitlines()\<close>.
\<close>

definition is_space :: "nat \<Rightarrow> bool" where
  "is_space c \<longleftrightarrow>
     (9 \<le> c \<and> c \<le> 13) \<or> (28 \<le> c \<and> c \<le> 32) \<or> c = 133 \<or> c = 160 \<or> c = 5760 \<or>
     (8192 \<le> c \<and> c \<le> 8202) \<or> c = 8232 \<or> c = 8233 \<or> c = 8239 \<or> c = 8287 \<or> c = 12288"

definition is_linebreak :: "nat \<Rightarrow> bool" where
  "is_linebreak c \<longleftrightarrow>
     (10 \<le> c \<and> c \<le> 13) \<or> (28 \<le> c \<and> c \<le> 30) \<or> c = 133 \<or> c = 8232 \<or> c = 8233"

datatype py_exn =
  ValueError | IndexError | KeyError | TypeError | AttributeError
  | ZeroDivisionError | UnicodeEncodeError | ConnectionError | HTTPError | JSONDecodeError

definition py_strip :: "ustr \<Rightarrow> ustr" where
  "py_strip s = rev (dropWhile is_space (rev (dropWhile is_space s)))"

definition py_startswith :: "ustr \<Rightarrow> ustr \<Rightarrow> bool" where
  "py_startswith s p \<longleftrightarrow> take (length p) s = p"

text \<open>\<open>s.find(sep)\<close>: the index of the first occurrence of \<open>sep\<close> in \<open>s\<close>.\<close>

fun py_find :: "ustr \<Rightarrow> ustr \<Rightarrow> nat option" where
  "py_find [] sep = (if sep = [] then Some 0 else None)"
| "py_find (c # cs) sep =
     (if py_startswith (c # cs) sep then Some 0 else map_option Suc (py_find cs sep))"

text \<open>\<open>sep in s\<close>.\<close>

definition py_contains :: "ustr \<Rightarrow> ustr \<Rightarrow> bool" where
  "py_contains sep s \<longleftrightarrow> py_find s sep \<noteq> None"

text \<open>\<open>s.partition(sep)\<close> raises \<open>ValueError\<close> on an empty separator.\<close>

definition py_partition :: "ustr \<Rightarrow> ustr \<Rightarrow> py_exn + (ustr \<times> ustr \<times> ustr)" where
  "py_partition s sep =
     (if sep = [] then Inl ValueError
      else case py_find s sep of
             None \<Rightarrow> Inr (s, [], [])
           | Some i \<Rightarrow> Inr (take i s, sep, drop (i + length sep) s))"

text \<open>\<open>s.split(sep, 1)\<close>: one or two pieces.\<close>

definition py_split1 :: "ustr \<Rightarrow> ustr \<Rightarrow> py_exn + ustr list" where
  "py_split1 s sep =
     (if sep = [] then Inl ValueError
      else case py_find s sep of
             None \<Rightarrow> Inr [s]
           | Some i \<Rightarrow> Inr [take i s, drop (i + length sep) s])"

text \<open>\<open>s.split()\<close>: the maximal runs of non-whitespace, \<open>w\<close> being the run read so far.\<close>

fun split_acc :: "ustr \<Rightarrow> ustr \<Rightarrow> ustr list" where
  "split_acc w [] = (if w = [] then [] else [w])"
| "split_acc w (c # cs) =
     (if is_space c then (if w = [] then split_acc [] cs else w # split_acc [] cs)
      else split_acc (w @ [c]) cs)"

definition py_split :: "ustr \<Rightarrow> ustr list" where
  "py_split s = split_acc [] s"

text \<open>
  \<open>s.splitlines()\<close>: the lines without their terminators; \<open>\r\n\<close> is one terminator,
  and a terminator at the very end opens no further line.
\<close>

fun splitlines_acc :: "ustr \<Rightarrow> ustr \<Rightarrow> ustr list" where
  "splitlines_acc l [] = (if l = [] then [] else [l])"
| "splitlines_acc l [c] = (if is_linebreak c then [l] else [l @ [c]])"
| "splitlines_acc l (c # d # cs) =
     (if c = 13 \<and> d = 10 then l # splitlines_acc [] cs
      else if is_linebreak c then l # splitlines_acc [] (d # cs)
      else splitlines_acc (l @ [c]) (d # cs))"

definition py_splitlines :: "ustr \<Rightarrow> ustr list" where
  "py_splitlines s = splitlines_acc [] s"

text \<open>
  A \<open>str\<close> may hold lone surrogates (U+D800 to U+DFFF); encoding such a string as
  UTF-8 raises \<open>UnicodeEncodeError\<close>.
\<close>

definition is_surrogate :: "nat \<Rightarrow> bool" where
  "is_surrogate c \<longleftrightarrow> 55296 \<le> c \<and> c \<le> 57343"

definition has_surrogate :: "ustr \<Rightarrow> bool" where
  "has_surrogate s = list_ex is_surrogate s"

subsection \<open>Decoded JSON and dictionaries\<close>

text \<open>
  The values \<open>response.json()\<close> can return. A dictionary is an association list with
  distinct keys. A number stands for a Python \<open>int\<close> or \<open>float\<close>; nothing below
  tells the two apart.
\<close>

datatype pyval =
  PNone | PBool bool | PNum rat | PStr ustr | PList "pyval list" | PDict "(ustr \<times> pyval) list"

text \<open>Sequencing of steps that may raise: the first exception ends the computation.\<close>

definition and_then :: "py_exn + 'a \<Rightarrow> ('a \<Rightarrow> py_exn + 'b) \<Rightarrow> py_exn + 'b" where
  "and_then m f = (case m of Inl e \<Rightarrow> Inl e | Inr x \<Rightarrow> f x)"

subsection \<open>Floats\<close>

text \<open>
  A Python \<open>float\<close> is an IEEE 754 binary64 number. A finite one is modelled by its
  exact value, a rational, and each operation rounds the exact result to the nearest
  float, ties to the even mantissa. \<open>nearest_float\<close> does that for a value in the
  normal range of the format (magnitude from \<open>2 ^ -1022\<close> up to \<open>2 ^ 1024\<close>),
  where the mantissa has 53 bits; the quotients, products and sums computed below
  from word counts and from the constants of the code lie well inside it.
\<close>

text \<open>Rounding to the nearest integer, ties to the even one.\<close>

definition round_half_even :: "rat \<Rightarrow> int" where
  "round_half_even x =
     (let f = \<lfloor>x\<rfloor>; d = x - of_int f in
      if d < 1 / 2 then f else if 1 / 2 < d then f + 1 else if even f then f else f + 1)"

text \<open>The binary exponent of a positive value: \<open>2 ^ ilog2 x \<le> x < 2 ^ (ilog2 x + 1)\<close>.\<close>

definition ilog2 :: "rat \<Rightarrow> int" where
  "ilog2 x = (if 1 \<le> x then bitlen \<lfloor>x\<rfloor> - 1 else - bitlen (\<lceil>1 / x\<rceil> - 1))"

definition nearest_float :: "rat \<Rightarrow> rat" where
  "nearest_float x =
     (if x = 0 then 0
      else let e = ilog2 \<bar>x\<bar> - 52 in of_int (round_half_even (x / 2 powi e)) * 2 powi e)"

text \<open>\<open>a / b\<close> on integers is correctly rounded, and raises on a zero divisor.\<close>

definition py_truediv :: "int \<Rightarrow> int \<Rightarrow> py_exn + rat" where
  "py_truediv a b = (if b = 0 then Inl ZeroDivisionError else Inr (nearest_float (of_int a / of_int b)))"

definition fmul :: "rat \<Rightarrow> rat \<Rightarrow> rat" where
  "fmul x y = nearest_float (x * y)"

definition fadd :: "rat \<Rightarrow> rat \<Rightarrow> rat" where
  "fadd x y = nearest_float (x + y)"

text \<open>
  \<open>round(x, n)\<close> on a float, for \<open>n \<ge> 0\<close>: the exact value of \<open>x\<close> is rounded to
  \<open>n\<close> decimals, ties to even, and the float nearest to that decimal is returned.
\<close>

definition py_round :: "rat \<Rightarrow> nat \<Rightarrow> rat" where
  "py_round x n = nearest_float (of_int (round_half_even (x * 10 ^ n)) / 10 ^ n)"

text \<open>
  \<open>sum\<close> over floats: starting from \<open>0\<close>, one rounded addition per element. (CPython
  from 3.12 on also carries a correction term; that can change the last bit of a sum,
  not its value rounded to two decimals below.)
\<close>

definition py_sum :: "rat list \<Rightarrow> rat" where
  "py_sum xs = foldl fadd 0 xs"

text \<open>\<open>key in x\<close> for a string key.\<close>

fun py_in :: "ustr \<Rightarrow> pyval \<Rightarrow> py_exn + bool" where
  "py_in key (PDict kvs) = Inr (key \<in> set (map fst kvs))"
| "py_in key (PList xs) = Inr (PStr key \<in> set xs)"
| "py_in key (PStr s) = Inr (py_contains key s)"
| "py_in key _ = Inl TypeError"

text \<open>\<open>x[key]\<close> for a string key.\<close>

fun py_getitem :: "pyval \<Rightarrow> ustr \<Rightarrow> py_exn + pyval" where
  "py_getitem (PDict kvs) key = (case map_of kvs key of None \<Rightarrow> Inl KeyError | Some v \<Rightarrow> Inr v)"
| "py_getitem _ key = Inl TypeError"

text \<open>
  \<open>x[0]\<close>. The keys of a decoded JSON object are strings, so on a dictionary the key
  \<open>0\<close> is missing.
\<close>

fun py_getitem0 :: "pyval \<Rightarrow> py_exn + pyval" where
  "py_getitem0 (PList []) = Inl IndexError"
| "py_getitem0 (PList (x # xs)) = Inr x"
| "py_getitem0 (PStr []) = Inl IndexError"
| "py_getitem0 (PStr (c # cs)) = Inr (PStr [c])"
| "py_getitem0 (PDict kvs) = Inl KeyError"
| "py_getitem0 _ = Inl TypeError"

fun py_len :: "pyval \<Rightarrow> py_exn + nat" where
  "py_len (PStr s) = Inr (length s)"
| "py_len (PList xs) = Inr (length xs)"
| "py_len (PDict kvs) = Inr (length kvs)"
| "py_len _ = Inl TypeError"

text \<open>\<open>x.get(key, default)\<close>: only a dictionary has the method.\<close>

fun py_get :: "pyval \<Rightarrow> ustr \<Rightarrow> pyval \<Rightarrow> py_exn + pyval" where
  "py_get (PDict kvs) key d = (case map_of kvs key of None \<Rightarrow> Inr d | Some v \<Rightarrow> Inr v)"
| "py_get _ key d = Inl AttributeError"

text \<open>The truth value of \<open>x\<close> in a condition.\<close>

fun py_truthy :: "pyval \<Rightarrow> bool" where
  "py_truthy PNone = False"
| "py_truthy (PBool b) = b"
| "py_truthy (PNum n) = (n \<noteq> 0)"
| "py_truthy (PStr s) = (s \<noteq> [])"
| "py_truthy (PList xs) = (xs \<noteq> [])"
| "py_truthy (PDict kvs) = (kvs \<noteq> [])"

text \<open>\<open>str(i)\<close> for an integer, as an f-string inserts it.\<close>

fun digits :: "nat \<Rightarrow> ustr" where
  "digits n = (if n < 10 then [48 + n] else digits (n div 10) @ [48 + n mod 10])"

definition py_str_int :: "int \<Rightarrow> ustr" where
  "py_str_int i = (if i < 0 then 45 # digits (nat (- i)) else digits (nat i))"

text \<open>
  What an f-string inserts for a decoded JSON value: a string as it is; for the other
  values Python's \<open>str\<close>, which is left as the parameter \<open>str_of\<close>.
\<close>

definition py_format :: "(pyval \<Rightarrow> ustr) \<Rightarrow> pyval \<Rightarrow> ustr" where
  "py_format str_of v = (case v of PStr s \<Rightarrow> s | _ \<Rightarrow> str_of v)"

section \<open>The network\<close>

text \<open>
  A call of \<open>requests.get\<close> or \<open>requests.post\<close> either raises (no response:
  connection error, timeout, ...) or returns a response with a status code and a body;
  the body is kept decoded, \<open>None\<close> when it is not valid JSON. The world fixes the
  reply to the \<open>k\<close>-th POST (for the text sent after the fixed prompt) and to the
  \<open>k\<close>-th GET (for the query \<open>q\<close>), and counts the requests made.
\<close>

datatype http_result = NoResponse | Response int "pyval option"

record world =
  post_reply :: "nat \<Rightarrow> ustr \<Rightarrow> http_result"
  get_reply :: "nat \<Rightarrow> ustr \<Rightarrow> http_result"
  posts :: nat
  gets :: nat

definition requests_post :: "world \<Rightarrow> ustr \<Rightarrow> (py_exn + (int \<times> pyval option)) \<times> world" where
  "requests_post w text =
     (case post_reply w (posts w) text of
        NoResponse \<Rightarrow> Inl ConnectionError
      | Response st body \<Rightarrow> Inr (st, body),
      w\<lparr>posts := posts w + 1\<rparr>)"

text \<open>
  \<open>requests.get\<close> encodes the query into the URL before anything is sent; a query
  with a lone surrogate makes that raise \<open>UnicodeEncodeError\<close>, which is not a
  \<open>requests.RequestException\<close>, and no request is made. (The body of the POST is
  JSON with every non-ASCII character escaped, so it always encodes.)
\<close>

definition requests_get :: "world \<Rightarrow> ustr \<Rightarrow> (py_exn + (int \<times> pyval option)) \<times> world" where
  "requests_get w q =
     (if has_surrogate q then (Inl UnicodeEncodeError, w)
      else
        (case get_reply w (gets w) q of
           NoResponse \<Rightarrow> Inl ConnectionError
         | Response st body \<Rightarrow> Inr (st, body),
         w\<lparr>gets := gets w + 1\<rparr>))"

text \<open>\<open>response.raise_for_status()\<close> raises on the 4xx and 5xx codes.\<close>

definition raise_for_status :: "int \<Rightarrow> py_exn + unit" where
  "raise_for_status st = (if 400 \<le> st \<and> st < 600 then Inl HTTPError else Inr ())"

definition response_json :: "pyval option \<Rightarrow> py_exn + pyval" where
  "response_json body = (case body of None \<Rightarrow> Inl JSONDecodeError | Some v \<Rightarrow> Inr v)"

text \<open>
  The exceptions of class \<open>requests.RequestException\<close>. The decoding error of
  \<open>response.json()\<close> is one of them (requests 2.27 and later).
\<close>

fun is_RequestException :: "py_exn \<Rightarrow> bool" where
  "is_RequestException ConnectionError = True"
| "is_RequestException HTTPError = True"
| "is_RequestException JSONDecodeError = True"
| "is_RequestException _ = False"

section \<open>The source resolver\<close>

definition fonte_nao_encontrada :: ustr where
  "fonte_nao_encontrada = u ''Fonte n'' @ [227] @ u ''o encontrada''"

text \<open>
  \<open>get_source_from_serpapi\<close> of \<open>veriplagio/app.py\<close>. The body of its \<open>try\<close>
  gives \<open>Inr (Some v)\<close> when it returns \<open>v\<close>, \<open>Inr None\<close> when it runs to its end,
  and \<open>Inl e\<close> when it raises \<open>e\<close>; the handler catches \<open>requests.RequestException\<close>
  only.
\<close>

definition serpapi_try :: "py_exn + (int \<times> pyval option) \<Rightarrow> py_exn + pyval option" where
  "serpapi_try response =
     and_then response (\<lambda>(st, body).
     and_then (raise_for_status st) (\<lambda>_.
     and_then (response_json body) (\<lambda>data.
     and_then (py_in (u ''organic_results'') data) (\<lambda>has.
       if has then
         and_then (py_getitem data (u ''organic_results'')) (\<lambda>organic.
         and_then (py_len organic) (\<lambda>n.
           if 0 < n then
             and_then (py_getitem0 organic) (\<lambda>first.
             and_then (py_get first (u ''link'') (PStr fonte_nao_encontrada)) (\<lambda>link.
               Inr (Some link)))
           else Inr None))
       else Inr None))))"

definition get_source_from_serpapi :: "world \<Rightarrow> ustr \<Rightarrow> (py_exn + pyval) \<times> world" where
  "get_source_from_serpapi w query =
     (case requests_get w query of (response, w') \<Rightarrow>
        (case serpapi_try response of
           Inr (Some v) \<Rightarrow> Inr v
         | Inr None \<Rightarrow> Inr (PStr fonte_nao_encontrada)
         | Inl e \<Rightarrow> if is_RequestException e then Inr (PStr fonte_nao_encontrada) else Inl e,
         w'))"

text \<open>
  \<open>get_source_from_serpapi\<close> of \<open>app.py\<close>: it reads the results with
  \<open>data.get("organic_results", [])\<close> and its handler catches \<open>Exception\<close>, which
  every exception above is.
\<close>

definition serpapi_try_app :: "py_exn + (int \<times> pyval option) \<Rightarrow> py_exn + pyval option" where
  "serpapi_try_app response =
     and_then response (\<lambda>(st, body).
     and_then (raise_for_status st) (\<lambda>_.
     and_then (response_json body) (\<lambda>data.
     and_then (py_get data (u ''organic_results'') (PList [])) (\<lambda>organic.
       if py_truthy organic then
         and_then (py_len organic) (\<lambda>n.
           if 0 < n then
             and_then (py_getitem0 organic) (\<lambda>first.
             and_then (py_get first (u ''link'') (PStr fonte_nao_encontrada)) (\<lambda>link.
               Inr (Some link)))
           else Inr None)
       else Inr None))))"

definition get_source_from_serpapi_app :: "world \<Rightarrow> ustr \<Rightarrow> (py_exn + pyval) \<times> world" where
  "get_source_from_serpapi_app w query =
     (case requests_get w query of (response, w') \<Rightarrow>
        (case serpapi_try_app response of
           Inr (Some v) \<Rightarrow> Inr v
         | Inr None \<Rightarrow> Inr (PStr fonte_nao_encontrada)
         | Inl e \<Rightarrow> Inr (PStr fonte_nao_encontrada),
         w'))"

section \<open>The report parser and the analysis client\<close>

text \<open>A span is the dictionary \<open>{"trecho": ..., "fonte": ...}\<close> built by the parser.\<close>

record span =
  trecho :: ustr
  fonte :: pyval

subsection \<open>\<open>veriplagio/app.py\<close>\<close>

text \<open>
  The body of the \<open>try\<close> for one line, up to the values of \<open>trecho\<close> and \<open>fonte\<close>.
  Indexing the result of \<open>split\<close> with \<open>[1]\<close> raises \<open>IndexError\<close> when the line
  holds no \<open>Trecho:\<close>; unpacking the second \<open>split\<close> into two names raises
  \<open>ValueError\<close> when there is no \<open>- Fonte:\<close>.
\<close>

definition try_parse_line :: "ustr \<Rightarrow> py_exn + (ustr \<times> ustr)" where
  "try_parse_line linha =
     and_then (py_split1 linha (u ''Trecho:'')) (\<lambda>parts.
       case parts of
         [_, rest] \<Rightarrow>
           (let after_trecho = py_strip rest in
            and_then (py_split1 after_trecho (u ''- Fonte:'')) (\<lambda>pieces.
              case pieces of
                [trecho', fonte_part] \<Rightarrow> Inr (py_strip trecho', py_strip fonte_part)
              | _ \<Rightarrow> Inl ValueError))
       | _ \<Rightarrow> Inl IndexError)"

text \<open>
  One iteration of the loop over the lines: what it appends to \<open>resultado_bruto\<close>
  and to \<open>trechos_plagio\<close>. The bare \<open>except:\<close> catches every exception.
\<close>

definition parse_line :: "ustr \<Rightarrow> ustr \<times> span list" where
  "parse_line linha =
     (if py_startswith (py_strip linha) (u ''Trecho'') then
        (case try_parse_line linha of
           Inr (trecho', fonte') \<Rightarrow>
             (u ''Trecho: '' @ trecho' @ u '' - Fonte: '' @ fonte' @ [10],
              [\<lparr>trecho = trecho', fonte = PStr fonte'\<rparr>])
         | Inl e \<Rightarrow> (linha @ [10], []))
      else (linha @ [10], []))"

fun parse_loop :: "ustr list \<Rightarrow> ustr \<Rightarrow> span list \<Rightarrow> ustr \<times> span list" where
  "parse_loop [] resultado_bruto trechos_plagio = (resultado_bruto, trechos_plagio)"
| "parse_loop (linha # linhas) resultado_bruto trechos_plagio =
     (case parse_line linha of
        (out, new) \<Rightarrow> parse_loop linhas (resultado_bruto @ out) (trechos_plagio @ new))"

text \<open>The parser: the part of \<open>analyze_plagiarism_with_source\<close> after the request.\<close>

definition parse_report :: "ustr \<Rightarrow> ustr \<times> span list" where
  "parse_report deepseek_result = parse_loop (py_splitlines deepseek_result) [] []"

text \<open>
  \<open>response.json()["choices"][0]["message"]["content"]\<close>, on which \<open>splitlines\<close> is
  then called: anything but a string has no such method.
\<close>

definition completion_content :: "pyval option \<Rightarrow> py_exn + ustr" where
  "completion_content body =
     and_then (response_json body) (\<lambda>data.
     and_then (py_getitem data (u ''choices'')) (\<lambda>choices.
     and_then (py_getitem0 choices) (\<lambda>choice.
     and_then (py_getitem choice (u ''message'')) (\<lambda>message.
     and_then (py_getitem message (u ''content'')) (\<lambda>content.
       case content of PStr s \<Rightarrow> Inr s | _ \<Rightarrow> Inl AttributeError)))))"

definition erro_na_api :: "int \<Rightarrow> ustr" where
  "erro_na_api status_code = u ''Erro na API DeepSeek (status: '' @ py_str_int status_code @ u '')''"

definition analyze_plagiarism_with_source ::
    "world \<Rightarrow> ustr \<Rightarrow> (py_exn + (ustr \<times> span list)) \<times> world" where
  "analyze_plagiarism_with_source w text =
     (case requests_post w text of (response, w') \<Rightarrow>
        (case response of
           Inl e \<Rightarrow> (Inl e, w')
         | Inr (status_code, body) \<Rightarrow>
             if status_code \<noteq> 200 then (Inr (erro_na_api status_code, []), w')
             else (and_then (completion_content body) (\<lambda>deepseek_result.
                     Inr (parse_report deepseek_result)), w')))"

subsection \<open>\<open>app.py\<close>\<close>

text \<open>
  Here the source of every excerpt is asked from the resolver, also when the line
  names one, so parsing a line may send a request.
\<close>

definition try_parse_line_app :: "world \<Rightarrow> ustr \<Rightarrow> (py_exn + (ustr \<times> pyval)) \<times> world" where
  "try_parse_line_app w linha =
     (case py_split1 linha (u ''Trecho:'') of
        Inr [_, rest] \<Rightarrow>
          (let after_trecho = py_strip rest in
           if py_contains (u ''- Fonte:'') after_trecho then
             (case py_split1 after_trecho (u ''- Fonte:'') of
                Inr [trecho', fonte_part] \<Rightarrow>
                  (case get_source_from_serpapi_app w (py_strip trecho') of
                     (Inr fonte', w') \<Rightarrow> (Inr (py_strip trecho', fonte'), w')
                   | (Inl e, w') \<Rightarrow> (Inl e, w'))
              | Inr _ \<Rightarrow> (Inl ValueError, w)
              | Inl e \<Rightarrow> (Inl e, w))
           else
             (case get_source_from_serpapi_app w after_trecho of
                (Inr fonte', w') \<Rightarrow> (Inr (after_trecho, fonte'), w')
              | (Inl e, w') \<Rightarrow> (Inl e, w')))
      | Inr _ \<Rightarrow> (Inl IndexError, w)
      | Inl e \<Rightarrow> (Inl e, w))"

definition parse_line_app :: "(pyval \<Rightarrow> ustr) \<Rightarrow> world \<Rightarrow> ustr \<Rightarrow> (ustr \<times> span list) \<times> world" where
  "parse_line_app str_of w linha =
     (if py_startswith (py_strip linha) (u ''Trecho'') then
        (case try_parse_line_app w linha of
           (Inr (trecho', fonte'), w') \<Rightarrow>
             ((u ''Trecho: '' @ trecho' @ u '' - Fonte: '' @ py_format str_of fonte' @ [10],
               [\<lparr>trecho = trecho', fonte = fonte'\<rparr>]), w')
         | (Inl e, w') \<Rightarrow> ((linha @ [10], []), w'))
      else ((linha @ [10], []), w))"

fun parse_loop_app ::
    "(pyval \<Rightarrow> ustr) \<Rightarrow> world \<Rightarrow> ustr list \<Rightarrow> ustr \<Rightarrow> span list \<Rightarrow> (ustr \<times> span list) \<times> world" where
  "parse_loop_app str_of w [] resultado_bruto trechos_plagio =
     ((resultado_bruto, trechos_plagio), w)"
| "parse_loop_app str_of w (linha # linhas) resultado_bruto trechos_plagio =
     (case parse_line_app str_of w linha of
        ((out, new), w') \<Rightarrow>
          parse_loop_app str_of w' linhas (resultado_bruto @ out) (trechos_plagio @ new))"

definition parse_report_app :: "(pyval \<Rightarrow> ustr) \<Rightarrow> world \<Rightarrow> ustr \<Rightarrow> (ustr \<times> span list) \<times> world" where
  "parse_report_app str_of w deepseek_result =
     parse_loop_app str_of w (py_splitlines deepseek_result) [] []"

definition analyze_plagiarism_with_source_app ::
    "(pyval \<Rightarrow> ustr) \<Rightarrow> world \<Rightarrow> ustr \<Rightarrow> (py_exn + (ustr \<times> span list)) \<times> world" where
  "analyze_plagiarism_with_source_app str_of w text =
     (case requests_post w text of (response, w') \<Rightarrow>
        (case response of
           Inl e \<Rightarrow> (Inl e, w')
         | Inr (status_code, body) \<Rightarrow>
             if status_code \<noteq> 200 then (Inr (erro_na_api status_code, []), w')
             else (case completion_content body of
                     Inl e \<Rightarrow> (Inl e, w')
                   | Inr deepseek_result \<Rightarrow>
                       (case parse_report_app str_of w' deepseek_result of
                          (r, w'') \<Rightarrow> (Inr r, w'')))))"

section \<open>The plagiarised spans and the highlighted document\<close>

text \<open>
  The document built by \<open>highlight_plagiarized_in_docx\<close> has one paragraph; it is
  modelled by the runs of that paragraph in document order, each with the text it
  holds and the two font attributes the code sets (\<open>None\<close>: left unset).
\<close>

datatype rgb = RGBColor nat nat nat

record run =
  run_text :: ustr
  run_bold :: "bool option"
  run_color :: "rgb option"

type_synonym document = "run list"

definition new_run :: "ustr \<Rightarrow> run" where
  "new_run s = \<lparr>run_text = s, run_bold = None, run_color = None\<rparr>"

text \<open>
  python-docx stores text in an XML tree, which takes only the characters XML allows:
  a string with a lone surrogate fails to encode, and one with another forbidden
  character (a control character other than tab, line feed and carriage return,
  U+FFFE, U+FFFF) raises \<open>ValueError\<close>.
\<close>

definition xml_char :: "nat \<Rightarrow> bool" where
  "xml_char c \<longleftrightarrow>
     c = 9 \<or> c = 10 \<or> c = 13 \<or> (32 \<le> c \<and> c < 55296) \<or> (57344 \<le> c \<and> c < 65534) \<or> 65536 \<le> c"

definition xml_text :: "ustr \<Rightarrow> py_exn + unit" where
  "xml_text s =
     (if has_surrogate s then Inl UnicodeEncodeError
      else if list_all xml_char s then Inr ()
      else Inl ValueError)"

text \<open>\<open>Run.add_text\<close> appends to the text of the run it is called on, in place.\<close>

definition add_text :: "run \<Rightarrow> ustr \<Rightarrow> py_exn + run" where
  "add_text r s = and_then (xml_text s) (\<lambda>_. Inr (r\<lparr>run_text := run_text r @ s\<rparr>))"

text \<open>
  \<open>p.add_run(text)\<close> appends a new run and assigns \<open>text\<close> to it. The assignment
  stores a tab as a tab element and a line feed or carriage return as a break element,
  and the text of the run reads a break as a line feed: a carriage return comes back
  as a line feed.
\<close>

definition read_back :: "ustr \<Rightarrow> ustr" where
  "read_back s = map (\<lambda>c. if c = 13 then 10 else c) s"

definition add_run :: "ustr \<Rightarrow> py_exn + run" where
  "add_run s = and_then (xml_text s) (\<lambda>_. Inr (new_run (read_back s)))"

text \<open>The run reading \<open>s\<close> with the red, bold font of a plagiarised excerpt.\<close>

definition plagio_run :: "ustr \<Rightarrow> run" where
  "plagio_run s = (new_run s)\<lparr>run_color := Some (RGBColor 255 0 0), run_bold := Some True\<rparr>"

text \<open>
  \<open>sorted(trechos_plagio, key=lambda x: len(x["trecho"]), reverse=True)\<close>: a stable sort,
  longest excerpt first; spans of equal length keep their order.
\<close>

definition sorted_by_len_desc :: "span list \<Rightarrow> span list" where
  "sorted_by_len_desc ts = sort_key (\<lambda>x. - int (length (trecho x))) ts"

text \<open>
  The loop of \<open>highlight_plagiarized_in_docx\<close>. Its state is \<open>normal_run\<close> (the first
  run of the paragraph, created before the loop), the runs that \<open>p.add_run\<close> has
  appended after it so far, and \<open>current_text\<close>.
\<close>

fun highlight_loop :: "span list \<Rightarrow> run \<Rightarrow> run list \<Rightarrow> ustr \<Rightarrow> py_exn + (run \<times> run list \<times> ustr)" where
  "highlight_loop [] normal_run added current_text = Inr (normal_run, added, current_text)"
| "highlight_loop (t # ts) normal_run added current_text =
     (if py_contains (trecho t) current_text then
        (case py_partition current_text (trecho t) of
           Inl e \<Rightarrow> Inl e
         | Inr (before, match, after) \<Rightarrow>
             (case add_text normal_run before of
                Inl e \<Rightarrow> Inl e
              | Inr normal_run' \<Rightarrow>
                  (case add_run (trecho t) of
                     Inl e \<Rightarrow> Inl e
                   | Inr r \<Rightarrow>
                       highlight_loop ts normal_run'
                         (added @ [r\<lparr>run_color := Some (RGBColor 255 0 0), run_bold := Some True\<rparr>])
                         after)))
      else highlight_loop ts normal_run added current_text)"

definition highlight_plagiarized_in_docx :: "ustr \<Rightarrow> span list \<Rightarrow> py_exn + document" where
  "highlight_plagiarized_in_docx original_text trechos_plagio =
     (case highlight_loop (sorted_by_len_desc trechos_plagio) (new_run []) [] original_text of
        Inl e \<Rightarrow> Inl e
      | Inr (normal_run, added, current_text) \<Rightarrow>
          and_then (add_text normal_run current_text) (\<lambda>normal_run'. Inr (normal_run' # added)))"

text \<open>The text of the document: the texts of its runs, in document order.\<close>

definition doc_text :: "document \<Rightarrow> ustr" where
  "doc_text d = concat (map run_text d)"

text \<open>The runs rendered in the distinct style, in document order.\<close>

definition highlighted :: "document \<Rightarrow> ustr list" where
  "highlighted d = map run_text (filter (\<lambda>r. run_bold r = Some True) d)"

section \<open>The percentage calculator\<close>

text \<open>
  The loop adding up \<open>len(item["trecho"].split())\<close> is a left fold over the spans.
\<close>

definition calculate_plagiarism_percentage :: "ustr \<Rightarrow> span list \<Rightarrow> py_exn + rat" where
  "calculate_plagiarism_percentage original_text trechos_plagio =
     (let total_words = length (py_split original_text) in
      if total_words = 0 then Inr 0
      else
        let plag_words =
              foldl (\<lambda>plag_words item. plag_words + length (py_split (trecho item))) 0
                trechos_plagio
        in and_then (py_truediv (int plag_words) (int total_words)) (\<lambda>q.
             Inr (py_round (fmul q 100) 2)))"

text \<open>
  The calculator as the specification words it. Word count is ``splitting on whitespace
  runs'': the text is cut at every whitespace character and the empty pieces, which
  lie inside or at the end of a run of whitespace, are dropped. The percentage is
  \<open>100 \<times> (sum of the word counts of the excerpts) / (word count of the text)\<close>, a
  rational number, rounded to two decimal places (a tie to the even hundredth, as
  \<open>round\<close> does), and \<open>0\<close> for a text without words.
\<close>

fun cut_at_whitespace :: "ustr \<Rightarrow> ustr list" where
  "cut_at_whitespace [] = [[]]"
| "cut_at_whitespace (c # cs) =
     (if is_space c then [] # cut_at_whitespace cs
      else (case cut_at_whitespace cs of p # ps \<Rightarrow> (c # p) # ps | [] \<Rightarrow> [[c]]))"

definition word_count :: "ustr \<Rightarrow> nat" where
  "word_count s = length (filter (\<lambda>p. p \<noteq> []) (cut_at_whitespace s))"

definition exact_percentage :: "ustr \<Rightarrow> span list \<Rightarrow> rat" where
  "exact_percentage original_text spans =
     100 * of_nat (sum_list (map (\<lambda>s. word_count (trecho s)) spans))
       / of_nat (word_count original_text)"

definition percentage_spec :: "ustr \<Rightarrow> span list \<Rightarrow> rat" where
  "percentage_spec original_text spans =
     (if word_count original_text = 0 then 0
      else of_int (round_half_even (exact_percentage original_text spans * 100)) / 100)"

text \<open>Texts of \<open>n\<close> words: the word \<open>a\<close>, \<open>n\<close> times, with single spaces between.\<close>

definition words_a :: "nat \<Rightarrow> ustr" where
  "words_a n = concat (replicate (n - 1) (u ''a '')) @ (if n = 0 then [] else u ''a'')"

section \<open>The report stub of \<open>app.py\<close>\<close>

text \<open>
  A result is the dictionary with the keys \<open>fonte\<close>, \<open>termos\<close>, \<open>termos_comuns\<close>,
  \<open>similitude\<close> and \<open>visualizar_link\<close>; the first field is named \<open>res_fonte\<close> here,
  apart from the \<open>fonte\<close> of a span. A float literal denotes the float nearest to
  its decimal value.
\<close>

record resultado =
  res_fonte :: ustr
  termos :: int
  termos_comuns :: int
  similitude :: rat
  visualizar_link :: ustr

definition resultados :: "resultado list" where
  "resultados =
     [\<lparr>res_fonte = u ''https://quantumcloud.com/inovacao.pdf'',
       termos = 1494, termos_comuns = 129, similitude = nearest_float (37 / 10),
       visualizar_link = u ''#''\<rparr>,
      \<lparr>res_fonte = u ''https://exemplo.com/tecnologia-educacao.pdf'',
       termos = 999, termos_comuns = 88, similitude = nearest_float (21 / 10),
       visualizar_link = u ''#''\<rparr>,
      \<lparr>res_fonte = u ''https://outroexemplo.com/trabalho-academico.html'',
       termos = 2000, termos_comuns = 300, similitude = nearest_float 10,
       visualizar_link = u ''#''\<rparr>]"

definition verificar_plagio_relatorio :: "ustr \<Rightarrow> nat \<times> rat \<times> resultado list" where
  "verificar_plagio_relatorio texto =
     (let palavras_texto = length (py_split texto);
          total_similaridade = py_sum (map similitude resultados)
      in (palavras_texto, py_round total_similaridade 2, resultados))"

section \<open>Worlds used in the examples\<close>

text \<open>The world in which every request gets the same reply, before any request.\<close>

definition world_replying :: "http_result \<Rightarrow> world" where
  "world_replying r =
     \<lparr>post_reply = (\<lambda>k text. r), get_reply = (\<lambda>k q. r), posts = 0, gets = 0\<rparr>"

text \<open>
  A stand-in for \<open>str\<close> in examples where only strings are formatted.
\<close>

definition str_unused :: "pyval \<Rightarrow> ustr" where
  "str_unused v = []"

section \<open>Properties\<close>

subsection \<open>Auxiliary facts\<close>

lemmas string_ops =
  py_contains_def py_partition_def py_split1_def py_startswith_def py_strip_def
  is_space_def is_linebreak_def py_splitlines_def u_def and_then_def
  has_surrogate_def is_surrogate_def

lemmas docx_ops =
  xml_text_def xml_char_def has_surrogate_def is_surrogate_def add_text_def add_run_def
  read_back_def and_then_def

lemma cut_at_whitespace_not_Nil: "cut_at_whitespace s \<noteq> []"
  by (induction s) (auto split: list.splits)

lemma split_acc_cut:
  "split_acc w cs =
     (case cut_at_whitespace cs of
        p # ps \<Rightarrow> filter (\<lambda>p. p \<noteq> []) ((w @ p) # ps)
      | [] \<Rightarrow> [])"
proof (induction cs arbitrary: w)
  case Nil
  then show ?case by simp
next
  case (Cons c cs)
  obtain p ps where cut: "cut_at_whitespace cs = p # ps"
    using cut_at_whitespace_not_Nil [of cs] by (cases "cut_at_whitespace cs") auto
  show ?case
  proof (cases "is_space c")
    case True
    then show ?thesis using Cons [of "[]"] cut by simp
  next
    case False
    then show ?thesis using Cons [of "w @ [c]"] cut by simp
  qed
qed

lemma length_py_split: "length (py_split s) = word_count s"
  using cut_at_whitespace_not_Nil [of s]
  by (cases "cut_at_whitespace s") (simp_all add: py_split_def word_count_def split_acc_cut)

lemma foldl_word_count:
  "foldl (\<lambda>n item. n + word_count (trecho item)) k ts
     = k + sum_list (map (\<lambda>s. word_count (trecho s)) ts)"
  by (induction ts arbitrary: k) simp_all

lemma parse_loop_concat:
  "parse_loop ls rb tp =
     (rb @ concat (map (\<lambda>l. fst (parse_line l)) ls),
      tp @ concat (map (\<lambda>l. snd (parse_line l)) ls))"
  by (induction ls arbitrary: rb tp) (auto split: prod.splits)

lemma get_source_from_serpapi_app_returns:
  "\<exists>v. fst (get_source_from_serpapi_app w q) = Inr v"
  by (auto simp: get_source_from_serpapi_app_def split: prod.splits sum.splits option.splits)





lemma py_find_Some_decomp:
  "py_find s sep = Some i \<Longrightarrow> s = take i s @ sep @ drop (i + length sep) s"
proof (induction s arbitrary: i)
  case Nil
  then show ?case by (simp split: if_splits)
next
  case (Cons c cs)
  show ?case
  proof (cases "py_startswith (c # cs) sep")
    case True
    with Cons.prems have "i = 0" by simp
    moreover from True have "c # cs = sep @ drop (length sep) (c # cs)"
      by (metis append_take_drop_id py_startswith_def)
    ultimately show ?thesis by simp
  next
    case False
    with Cons.prems obtain j where j: "py_find cs sep = Some j" "i = Suc j" by auto
    from Cons.IH [OF j(1)] j(2) show ?thesis by simp
  qed
qed




lemma get_source_app_pair:
  "\<exists>v w'. get_source_from_serpapi_app w q = (Inr v, w')"
  by (auto simp: get_source_from_serpapi_app_def split: prod.splits sum.splits option.splits)

text \<open>
  Whatever the spans, a document that is built holds the characters of the original
  text, each as often as the text does; an empty excerpt makes \<open>partition\<close> raise.
\<close>

lemma py_partition_found:
  "py_contains sep s \<Longrightarrow> py_partition s sep = Inr (before, match, after) \<Longrightarrow>
   s = before @ sep @ after \<and> match = sep"
  using py_find_Some_decomp [of s sep]
  by (auto simp: py_partition_def py_contains_def split: if_splits option.splits)

lemma add_text_Inr: "add_text r s = Inr r' \<Longrightarrow> run_text r' = run_text r @ s"
  by (auto simp: add_text_def and_then_def split: sum.splits)

lemma read_back_no_cr: "13 \<notin> set s \<Longrightarrow> read_back s = s"
  by (induction s) (auto simp: read_back_def)

lemma add_run_Inr: "add_run s = Inr r \<Longrightarrow> 13 \<notin> set s \<Longrightarrow> run_text r = s"
  by (auto simp: add_run_def and_then_def new_run_def read_back_no_cr split: sum.splits)

lemma highlight_loop_keeps_characters:
  "highlight_loop ts normal_run added current_text = Inr (normal_run', added', current_text') \<Longrightarrow>
   13 \<notin> set current_text \<Longrightarrow>
   mset (run_text normal_run' @ concat (map run_text added') @ current_text')
     = mset (run_text normal_run @ concat (map run_text added) @ current_text)"
proof (induction ts normal_run added current_text rule: highlight_loop.induct)
  case (1 normal_run added current_text)
  then show ?case by simp
next
  case (2 t ts normal_run added current_text)
  show ?case
  proof (cases "py_contains (trecho t) current_text")
    case False
    with 2 show ?thesis by simp
  next
    case True
    with "2.prems" obtain before match after
      where part: "py_partition current_text (trecho t) = Inr (before, match, after)"
      by (auto split: sum.splits)
    from py_partition_found [OF True part]
    have cur: "current_text = before @ trecho t @ after" by simp
    with "2.prems"(2) have nocr: "13 \<notin> set (trecho t)" "13 \<notin> set after" by auto
    from "2.prems"(1) True part obtain n where n: "add_text normal_run before = Inr n"
      by (auto split: sum.splits)
    from "2.prems"(1) True part n obtain r where r: "add_run (trecho t) = Inr r"
      by (auto split: sum.splits)
    let ?r = "r\<lparr>run_color := Some (RGBColor 255 0 0), run_bold := Some True\<rparr>"
    from "2.prems"(1) True part n r
    have "highlight_loop ts n (added @ [?r]) after = Inr (normal_run', added', current_text')"
      by simp
    from "2.IH"(1) [OF True part refl refl n r this nocr(2)]
    show ?thesis
      by (subst cur) (simp add: add_text_Inr [OF n] add_run_Inr [OF r nocr(1)])
  qed
qed

lemma highlight_keeps_characters:
  "highlight_plagiarized_in_docx original_text trechos_plagio = Inr d \<Longrightarrow>
   13 \<notin> set original_text \<Longrightarrow> mset (doc_text d) = mset original_text"
  by (auto simp: highlight_plagiarized_in_docx_def doc_text_def new_run_def and_then_def
      ac_simps split: sum.splits prod.splits
      dest!: highlight_loop_keeps_characters add_text_Inr)

lemma highlight_empty_excerpt_raises:
  "highlight_plagiarized_in_docx (u ''abc'') [\<lparr>trecho = [], fonte = PNone\<rparr>] = Inl ValueError"
  by (simp add: highlight_plagiarized_in_docx_def sorted_by_len_desc_def py_contains_def
      py_partition_def py_startswith_def u_def)

lemma highlight_form_feed_raises:
  "highlight_plagiarized_in_docx [97, 12, 98] [\<lparr>trecho = [98], fonte = PNone\<rparr>] = Inl ValueError"
  by (simp add: highlight_plagiarized_in_docx_def sorted_by_len_desc_def py_contains_def
      py_partition_def py_startswith_def docx_ops)

lemma highlight_carriage_return_reads_line_feed:
  "highlight_plagiarized_in_docx [97, 13, 98] [\<lparr>trecho = [13], fonte = PNone\<rparr>]
     = Inr [new_run [97, 98], plagio_run [10]]"
  by (simp add: highlight_plagiarized_in_docx_def sorted_by_len_desc_def py_contains_def
      py_partition_def py_startswith_def docx_ops new_run_def plagio_run_def)

text \<open>
  A query with a lone surrogate: the resolver of \<open>veriplagio/app.py\<close> lets the
  encoding error out, the one of \<open>app.py\<close> gives the sentinel; neither sends a request.
\<close>

lemma get_source_from_serpapi_surrogate:
  "get_source_from_serpapi w [97, 55296] = (Inl UnicodeEncodeError, w)
   \<and> get_source_from_serpapi_app w [97, 55296] = (Inr (PStr fonte_nao_encontrada), w)"
  by (simp add: get_source_from_serpapi_def get_source_from_serpapi_app_def serpapi_try_def
      serpapi_try_app_def requests_get_def and_then_def has_surrogate_def is_surrogate_def)

text \<open>
  The error of the float operations: rounding to the nearest float changes a value
  by at most its \<open>2 ^ 53\<close>-th part.
\<close>

lemma round_half_even_error: "\<bar>of_int (round_half_even x) - x\<bar> \<le> 1 / 2"
proof -
  have "of_int \<lfloor>x\<rfloor> \<le> x" "x < of_int \<lfloor>x\<rfloor> + 1" by linarith+
  then show ?thesis
    by (auto simp: round_half_even_def Let_def abs_le_iff)
qed

lemma pow2_le_of_int: "2 ^ b \<le> (n::int) \<Longrightarrow> (2::rat) ^ b \<le> of_int n"
proof -
  assume "2 ^ b \<le> n"
  then have "(of_int (2 ^ b) :: rat) \<le> of_int n" by (simp only: of_int_le_iff)
  then show ?thesis by simp
qed

lemma of_int_le_pow2: "(n::int) \<le> 2 ^ b \<Longrightarrow> (of_int n :: rat) \<le> 2 ^ b"
proof -
  assume "n \<le> 2 ^ b"
  then have "(of_int n :: rat) \<le> of_int (2 ^ b)" by (simp only: of_int_le_iff)
  then show ?thesis by simp
qed

lemma bitlen_exponent:
  assumes "1 \<le> (n::int)"
  shows "\<exists>b. bitlen n = int b + 1 \<and> 2 ^ b \<le> n \<and> n + 1 \<le> 2 ^ (b + 1)"
proof -
  have bl: "1 \<le> bitlen n" using assms by (simp add: bitlen_ge_iff_power)
  define b where "b = nat (bitlen n - 1)"
  have bb: "bitlen n = int b + 1" using bl unfolding b_def by linarith
  have nb: "nat (bitlen n) = b + 1" using bl unfolding b_def by linarith
  from bitlen_bounds [of n] assms
  have "2 ^ nat (bitlen n - 1) \<le> n" "n < 2 ^ nat (bitlen n)" by auto
  then have "2 ^ b \<le> n" "n < 2 ^ (b + 1)"
    by (simp_all only: b_def [symmetric] nb)
  with bb show ?thesis by auto
qed

lemma ilog2_bounds:
  assumes "0 < x"
  shows "2 powi (ilog2 x) \<le> x \<and> x < 2 powi (ilog2 x + 1)"
proof (cases "1 \<le> x")
  case True
  define n where "n = \<lfloor>x\<rfloor>"
  have n1: "1 \<le> n" using True by (simp add: n_def)
  have nx: "of_int n \<le> x" "x < of_int (n + 1)" unfolding n_def by (simp, simp, linarith)
  obtain b where bb: "bitlen n = int b + 1" and lo: "2 ^ b \<le> n" and hi: "n + 1 \<le> 2 ^ (b + 1)"
    using bitlen_exponent [OF n1] by blast
  have il: "ilog2 x = int b" using True by (simp add: ilog2_def n_def [symmetric] bb)
  have 1: "(2::rat) ^ b \<le> x" using pow2_le_of_int [OF lo] nx(1) by linarith
  have 2: "x < (2::rat) ^ (b + 1)" using of_int_le_pow2 [OF hi] nx(2) by linarith
  have e1: "(2::rat) powi (int b) = 2 ^ b" by (simp add: power_int_of_nat)
  have e2: "(2::rat) powi (int b + 1) = 2 ^ (b + 1)"
    using power_int_of_nat [of "2::rat" "b + 1"] by (simp add: add.commute)
  show ?thesis unfolding il e1 e2 using 1 2 by blast
next
  case False
  then have x1: "x < 1" by simp
  define y where "y = 1 / x"
  have y1: "1 < y" using assms x1 by (simp add: y_def)
  define m where "m = \<lceil>y\<rceil> - 1"
  have my: "of_int m < y" "y \<le> of_int (m + 1)" unfolding m_def by (simp, linarith, simp)
  have m1: "1 \<le> m" using y1 my(2) by linarith
  obtain b where bb: "bitlen m = int b + 1" and lo: "2 ^ b \<le> m" and hi: "m + 1 \<le> 2 ^ (b + 1)"
    using bitlen_exponent [OF m1] by blast
  have il: "ilog2 x = - (int b + 1)"
    using False by (simp add: ilog2_def y_def [symmetric] m_def [symmetric] bb)
  have 1: "(2::rat) ^ b < y" using pow2_le_of_int [OF lo] my(1) by linarith
  have 2: "y \<le> (2::rat) ^ (b + 1)" using of_int_le_pow2 [OF hi] my(2) by linarith
  have xy: "x = 1 / y" using assms by (simp add: y_def)
  have ypos: "0 < y" using y1 by simp
  have A: "1 / (2::rat) ^ (b + 1) \<le> x"
    unfolding xy using 2 ypos by (simp add: frac_le)
  have B: "x < 1 / (2::rat) ^ b"
    unfolding xy using 1 by (simp add: frac_less2)
  have e1: "(2::rat) powi (- (int b + 1)) = 1 / 2 ^ (b + 1)"
  proof -
    have "(2::rat) powi (- int (b + 1)) = 1 / 2 powi int (b + 1)"
      by (rule power_int_minus_divide)
    also have "\<dots> = 1 / 2 ^ (b + 1)" by (simp only: power_int_of_nat)
    finally show ?thesis by (simp only: of_nat_add of_nat_1)
  qed
  have e2: "(2::rat) powi (- (int b + 1) + 1) = 1 / 2 ^ b"
    using power_int_minus_divide [of "2::rat" "int b"] by (simp add: power_int_of_nat)
  show ?thesis unfolding il e1 e2 using A B by blast
qed


lemma nearest_float_error: "\<bar>nearest_float x - x\<bar> \<le> \<bar>x\<bar> / 2 ^ 53"
proof (cases "x = 0")
  case True
  then show ?thesis by (simp add: nearest_float_def)
next
  case False
  define L where "L = ilog2 \<bar>x\<bar>"
  define s where "s = (2::rat) powi (L - 52)"
  have spos: "0 < s" by (simp add: s_def)
  have "(2::rat) powi (L - 52) = 2 powi L / 2 powi 52"
    by (rule power_int_diff) simp
  then have sL: "s * 2 ^ 52 = 2 powi L" by (simp add: s_def)
  have "2 powi L \<le> \<bar>x\<bar>" using ilog2_bounds [of "\<bar>x\<bar>"] False by (simp add: L_def)
  then have s52: "s * 2 ^ 52 \<le> \<bar>x\<bar>" using sL by simp
  have nf: "nearest_float x = of_int (round_half_even (x / s)) * s"
    using False by (simp add: nearest_float_def Let_def s_def L_def)
  have "\<bar>of_int (round_half_even (x / s)) * s - x\<bar>
      = \<bar>of_int (round_half_even (x / s)) - x / s\<bar> * s"
  proof -
    have "of_int (round_half_even (x / s)) * s - x
        = (of_int (round_half_even (x / s)) - x / s) * s"
      using spos by (simp add: field_simps)
    then show ?thesis using spos by (simp add: abs_mult)
  qed
  also have "\<dots> \<le> (1 / 2) * s"
    using round_half_even_error [of "x / s"] spos by (simp add: mult_right_mono)
  finally have "\<bar>nearest_float x - x\<bar> \<le> s / 2" by (simp add: nf)
  moreover have "s / 2 \<le> \<bar>x\<bar> / 2 ^ 53" using s52 by simp
  ultimately show ?thesis by linarith
qed

lemma percentage_error:
  assumes "0 \<le> a"
  shows "\<exists>k. py_round (fmul (nearest_float a) 100) 2 = nearest_float (of_int k / 100)
     \<and> \<bar>of_int k / 100 - 100 * a\<bar> \<le> 1 / 200 + 100 * a / 2 ^ 51"
proof -
  define q where "q = nearest_float a"
  define p where "p = nearest_float (q * 100)"
  define k where "k = round_half_even (p * 10 ^ 2)"
  define d where "d = a / 2 ^ 53"
  define d' where "d' = (a + d) / 2 ^ 53"
  have dpos: "0 \<le> d" using assms by (simp add: d_def)
  have res: "py_round (fmul (nearest_float a) 100) 2 = nearest_float (of_int k / 100)"
    by (simp add: py_round_def fmul_def q_def p_def k_def)
  have qe: "\<bar>q - a\<bar> \<le> d"
    using nearest_float_error [of a] assms by (simp add: q_def d_def)
  then have qa: "\<bar>q\<bar> \<le> a + d" using assms by linarith
  have "\<bar>p - q * 100\<bar> \<le> \<bar>q * 100\<bar> / 2 ^ 53"
    using nearest_float_error [of "q * 100"] by (simp add: p_def)
  moreover have "\<bar>q * 100\<bar> = 100 * \<bar>q\<bar>" by (simp add: abs_mult)
  ultimately have "\<bar>p - q * 100\<bar> \<le> 100 * \<bar>q\<bar> / 2 ^ 53" by simp
  also have "\<dots> \<le> 100 * (a + d) / 2 ^ 53"
    using qa by (simp add: divide_right_mono)
  finally have pe: "\<bar>p - q * 100\<bar> \<le> 100 * d'" by (simp add: d'_def)
  have ke: "\<bar>of_int k - p * 100\<bar> \<le> 1 / 2"
    using round_half_even_error [of "p * 10 ^ 2"] by (simp add: k_def)
  then have A: "\<bar>of_int k / 100 - p\<bar> \<le> 1 / 200" by linarith
  from qe have C: "\<bar>q * 100 - 100 * a\<bar> \<le> 100 * d" by linarith
  have tri: "\<bar>of_int k / 100 - 100 * a\<bar> \<le> 1 / 200 + 100 * d' + 100 * d"
    using A pe C by linarith
  have small: "100 * d' + 100 * d \<le> 100 * a / 2 ^ 51"
    using assms by (simp add: d'_def d_def)
  have "\<bar>of_int k / 100 - 100 * a\<bar> \<le> 1 / 200 + 100 * a / 2 ^ 51"
    using tri small by linarith
  with res show ?thesis by blast
qed

lemma split_acc_words_a:
  "split_acc [] (concat (replicate n (u ''a '')) @ s) = replicate n (u ''a'') @ split_acc [] s"
  by (induction n) (simp_all add: u_def is_space_def)

lemma word_count_words_a: "0 < n \<Longrightarrow> word_count (words_a n) = n"
proof -
  assume "0 < n"
  then have "words_a n = concat (replicate (n - 1) (u ''a '')) @ u ''a''"
    by (simp add: words_a_def)
  then have "py_split (words_a n) = replicate (n - 1) (u ''a'') @ split_acc [] (u ''a'')"
    by (simp add: py_split_def split_acc_words_a)
  moreover have "split_acc [] (u ''a'') = [u ''a'']" by (simp add: u_def is_space_def)
  ultimately have "length (py_split (words_a n)) = n" using \<open>0 < n\<close> by simp
  then show ?thesis by (simp add: length_py_split)
qed

lemma float_23_of_160:
  "py_round (fmul (nearest_float (23 / 160)) 100) 2 = 8089590830664253 / 562949953421312"
  by code_simp

lemma float_14_37: "nearest_float (1437 / 100) = 8089590830664253 / 562949953421312"
  by code_simp

lemma float_14_38: "nearest_float (1438 / 100) = 8095220330198467 / 562949953421312"
  by code_simp

lemma float_2_of_3:
  "py_round (fmul (nearest_float (2 / 3)) 100) 2 = 4691484174324859 / 70368744177664"
  by code_simp

lemma float_66_67: "nearest_float (6667 / 100) = 4691484174324859 / 70368744177664"
  by code_simp

lemma float_15_8: "nearest_float (158 / 10) = 4447304632028365 / 281474976710656"
  by code_simp

lemma float_two_hundred: "py_round (fmul (nearest_float (2 / 1)) 100) 2 = 200"
  by code_simp

lemma total_similaridade_value:
  "py_round (py_sum (map similitude resultados)) 2 = nearest_float (158 / 10)"
  by code_simp


subsection \<open>The highlighted document\<close>

text \<open>
  C1. The claim is that the texts of the runs, read in document order, give back the
  original text. The code appends every plain piece to the one run it created first,
  so the plain text comes before all highlighted runs: for the text \<open>abc\<close> and the
  excerpt \<open>a\<close> the document reads \<open>bca\<close>.
\<close>

theorem highlight_moves_plain_text_first:
  "highlight_plagiarized_in_docx (u ''abc'') [\<lparr>trecho = u ''a'', fonte = PStr (u ''x'')\<rparr>]
     = Inr [new_run (u ''bc''), plagio_run (u ''a'')]
   \<and> doc_text [new_run (u ''bc''), plagio_run (u ''a'')] = u ''bca''
   \<and> u ''bca'' \<noteq> u ''abc''"
  by (simp add: highlight_plagiarized_in_docx_def sorted_by_len_desc_def py_contains_def
      py_partition_def py_startswith_def docx_ops new_run_def plagio_run_def doc_text_def
      u_def)

text \<open>
  C4. On the text \<open>the cat sat on the mat\<close> with the excerpts \<open>the cat sat\<close> and
  \<open>cat\<close>, given in either order and with any sources, the longer excerpt is taken
  first and becomes the only highlighted run; \<open>cat\<close> does not occur in what is left
  (\<open> on the mat\<close>) and is skipped without an error.
\<close>

theorem highlight_longest_first_example:
  "highlight_plagiarized_in_docx (u ''the cat sat on the mat'')
       [\<lparr>trecho = u ''the cat sat'', fonte = f1\<rparr>, \<lparr>trecho = u ''cat'', fonte = f2\<rparr>]
     = Inr [new_run (u '' on the mat''), plagio_run (u ''the cat sat'')]
   \<and> highlight_plagiarized_in_docx (u ''the cat sat on the mat'')
       [\<lparr>trecho = u ''cat'', fonte = f2\<rparr>, \<lparr>trecho = u ''the cat sat'', fonte = f1\<rparr>]
     = Inr [new_run (u '' on the mat''), plagio_run (u ''the cat sat'')]
   \<and> highlighted [new_run (u '' on the mat''), plagio_run (u ''the cat sat'')]
     = [u ''the cat sat'']
   \<and> \<not> py_contains (u ''cat'') (u '' on the mat'')"
  by (simp add: highlight_plagiarized_in_docx_def sorted_by_len_desc_def py_contains_def
      py_partition_def py_startswith_def docx_ops new_run_def plagio_run_def highlighted_def
      u_def)


subsection \<open>The percentage calculator\<close>

text \<open>
  C2. The claim gives the result as \<open>100 \<times> sum / count\<close> rounded to two decimals. The
  code divides first, in floating point: for a text of 160 words and an excerpt of 23
  of them the quotient \<open>23 / 160\<close> is rounded to a float just below \<open>0.14375\<close>, its
  product with 100 lies just below \<open>14.375\<close>, and \<open>round\<close> gives \<open>14.37\<close>, where the
  exact percentage \<open>14.375\<close> rounds to \<open>14.38\<close>.
\<close>

theorem calculate_plagiarism_percentage_not_exact:
  "calculate_plagiarism_percentage (words_a 160) [\<lparr>trecho = words_a 23, fonte = PNone\<rparr>]
     = Inr (nearest_float (1437 / 100))
   \<and> exact_percentage (words_a 160) [\<lparr>trecho = words_a 23, fonte = PNone\<rparr>] = 14375 / 1000
   \<and> percentage_spec (words_a 160) [\<lparr>trecho = words_a 23, fonte = PNone\<rparr>] = 1438 / 100
   \<and> nearest_float (1437 / 100) \<noteq> nearest_float (1438 / 100)
   \<and> nearest_float (1437 / 100) \<noteq> 1438 / 100"
proof -
  have w: "word_count (words_a 160) = 160" "word_count (words_a 23) = 23"
    by (simp_all add: word_count_words_a)
  have calc: "calculate_plagiarism_percentage (words_a 160) [\<lparr>trecho = words_a 23, fonte = PNone\<rparr>]
      = Inr (nearest_float (1437 / 100))"
    using float_23_of_160
    by (simp add: calculate_plagiarism_percentage_def length_py_split w py_truediv_def
        and_then_def float_14_37)
  have ex: "exact_percentage (words_a 160) [\<lparr>trecho = words_a 23, fonte = PNone\<rparr>] = 14375 / 1000"
    by (simp add: exact_percentage_def w)
  have r: "round_half_even (14375 / 1000 * 100) = 1438" by code_simp
  have sp: "percentage_spec (words_a 160) [\<lparr>trecho = words_a 23, fonte = PNone\<rparr>] = 1438 / 100"
    unfolding percentage_spec_def ex using r by (simp add: w)
  have ne1: "nearest_float (1437 / 100) \<noteq> nearest_float (1438 / 100)"
    unfolding float_14_37 float_14_38 by simp
  have ne2: "nearest_float (1437 / 100) \<noteq> 1438 / 100"
    unfolding float_14_37 by simp
  show ?thesis
    using calc ex sp ne1 ne2 by blast
qed

text \<open>
  C2, amended. For every text and span list the calculator returns \<open>0.0\<close> when the
  text has no word. Otherwise it returns \<open>round((p / w) * 100, 2)\<close> evaluated in
  floating point, \<open>p\<close> being the sum of the word counts of the excerpts and \<open>w\<close> the
  word count of the text, a word being a maximal piece between runs of whitespace.
  That value is the float nearest to a number \<open>k / 100\<close> of two decimals which lies
  within \<open>0.005 + e / 2 ^ 51\<close> of the exact percentage \<open>e = 100 \<times> p / w\<close>: one of
  the two-decimal numbers next to \<open>e\<close>, though not always the nearer one.
\<close>

theorem calculate_plagiarism_percentage_rounds:
  "(word_count original_text = 0 \<longrightarrow>
      calculate_plagiarism_percentage original_text trechos_plagio = Inr 0)
   \<and> (0 < word_count original_text \<longrightarrow>
        calculate_plagiarism_percentage original_text trechos_plagio
          = Inr (py_round
                  (fmul
                     (nearest_float
                        (of_nat (sum_list (map (\<lambda>s. word_count (trecho s)) trechos_plagio))
                           / of_nat (word_count original_text))) 100) 2)
        \<and> (\<exists>k. calculate_plagiarism_percentage original_text trechos_plagio
                  = Inr (nearest_float (of_int k / 100))
               \<and> \<bar>of_int k / 100 - exact_percentage original_text trechos_plagio\<bar>
                   \<le> 1 / 200 + exact_percentage original_text trechos_plagio / 2 ^ 51))"
proof -
  let ?p = "sum_list (map (\<lambda>s. word_count (trecho s)) trechos_plagio)"
  let ?w = "word_count original_text"
  let ?a = "(of_nat ?p :: rat) / of_nat ?w"
  have zero: "?w = 0 \<longrightarrow> calculate_plagiarism_percentage original_text trechos_plagio = Inr 0"
    by (simp add: calculate_plagiarism_percentage_def length_py_split)
  have calc: "0 < ?w \<longrightarrow> calculate_plagiarism_percentage original_text trechos_plagio
      = Inr (py_round (fmul (nearest_float ?a) 100) 2)"
    by (simp add: calculate_plagiarism_percentage_def length_py_split foldl_word_count
        py_truediv_def and_then_def)
  have "0 \<le> ?a" by simp
  from percentage_error [OF this]
  obtain k where k: "py_round (fmul (nearest_float ?a) 100) 2 = nearest_float (of_int k / 100)"
    "\<bar>of_int k / 100 - 100 * ?a\<bar> \<le> 1 / 200 + 100 * ?a / 2 ^ 51"
    by blast
  have e: "exact_percentage original_text trechos_plagio = 100 * ?a"
    by (simp add: exact_percentage_def)
  from calc k e zero show ?thesis by auto
qed

theorem calculate_plagiarism_percentage_rounds_witness:
  "word_count (u '' '') = 0
   \<and> calculate_plagiarism_percentage (u '' '') [\<lparr>trecho = u ''a b'', fonte = PNone\<rparr>] = Inr 0
   \<and> 0 < word_count (u ''a b c'')
   \<and> calculate_plagiarism_percentage (u ''a b c'') [\<lparr>trecho = u ''a b'', fonte = PNone\<rparr>]
       = Inr (nearest_float (6667 / 100))
   \<and> nearest_float (6667 / 100) = 4691484174324859 / 70368744177664"
proof -
  have h0: "word_count (u '' '') = 0"
    by (simp add: word_count_def u_def is_space_def)
  have w3: "word_count (u ''a b c'') = 3" "word_count (u ''a b'') = 2"
    by (simp_all add: word_count_def u_def is_space_def)
  have h3: "0 < word_count (u ''a b c'')" by (simp add: w3)
  have z: "calculate_plagiarism_percentage (u '' '') [\<lparr>trecho = u ''a b'', fonte = PNone\<rparr>] = Inr 0"
    using h0 calculate_plagiarism_percentage_rounds
      [of "u '' ''" "[\<lparr>trecho = u ''a b'', fonte = PNone\<rparr>]"]
    by blast
  have "calculate_plagiarism_percentage (u ''a b c'') [\<lparr>trecho = u ''a b'', fonte = PNone\<rparr>]
      = Inr (py_round (fmul (nearest_float
          (of_nat (sum_list (map (\<lambda>s. word_count (trecho s)) [\<lparr>trecho = u ''a b'', fonte = PNone\<rparr>]))
             / of_nat (word_count (u ''a b c'')))) 100) 2)"
    using h3 calculate_plagiarism_percentage_rounds
      [of "u ''a b c''" "[\<lparr>trecho = u ''a b'', fonte = PNone\<rparr>]"]
    by blast
  then have c: "calculate_plagiarism_percentage (u ''a b c'') [\<lparr>trecho = u ''a b'', fonte = PNone\<rparr>]
      = Inr (nearest_float (6667 / 100))"
    by (simp add: w3 float_2_of_3 float_66_67)
  show ?thesis using h0 h3 z c float_66_67 by blast
qed

text \<open>
  C10. The words of an excerpt count whether or not the excerpt occurs in the text:
  for the one-word text \<open>a\<close>, the excerpt \<open>b c\<close>, which does not occur in it, gives
  200, and so does the excerpt \<open>a\<close> listed twice. The result is not bounded by 100.
\<close>

theorem calculate_plagiarism_percentage_above_100:
  "calculate_plagiarism_percentage (u ''a'') [\<lparr>trecho = u ''b c'', fonte = PStr (u ''x'')\<rparr>]
     = Inr 200
   \<and> \<not> py_contains (u ''b c'') (u ''a'')
   \<and> calculate_plagiarism_percentage (u ''a'')
       [\<lparr>trecho = u ''a'', fonte = PStr (u ''x'')\<rparr>, \<lparr>trecho = u ''a'', fonte = PStr (u ''x'')\<rparr>]
     = Inr 200
   \<and> (100 :: rat) < 200"
proof -
  have words: "py_split (u ''a'') = [u ''a'']" "py_split (u ''b c'') = [u ''b'', u ''c'']"
    by (simp_all add: py_split_def u_def is_space_def)
  have absent: "\<not> py_contains (u ''b c'') (u ''a'')"
    by (simp add: py_contains_def py_startswith_def u_def)
  show ?thesis
    using float_two_hundred absent
    by (simp add: calculate_plagiarism_percentage_def words py_truediv_def and_then_def)
qed

subsection \<open>The source resolver\<close>

text \<open>
  C3. The claim is that the resolver never raises and gives the sentinel when the
  reply is malformed. In \<open>veriplagio/app.py\<close> only \<open>requests.RequestException\<close> is
  caught: on a reply with status 200 whose body is \<open>{"organic_results": [null]}\<close>
  the call of \<open>.get\<close> on the first result raises \<open>AttributeError\<close>, which leaves the
  function. The resolver of \<open>app.py\<close> gives the sentinel on the same reply.
\<close>

theorem get_source_from_serpapi_raises:
  "fst (get_source_from_serpapi
          (world_replying (Response 200 (Some (PDict [(u ''organic_results'', PList [PNone])]))))
          (u ''hello world'')) = Inl AttributeError
   \<and> fst (get_source_from_serpapi_app
          (world_replying (Response 200 (Some (PDict [(u ''organic_results'', PList [PNone])]))))
          (u ''hello world'')) = Inr (PStr fonte_nao_encontrada)"
  by (simp add: get_source_from_serpapi_def get_source_from_serpapi_app_def serpapi_try_def
      serpapi_try_app_def requests_get_def world_replying_def raise_for_status_def
      response_json_def string_ops)

subsection \<open>The report parser\<close>

text \<open>
  C7. The parser of \<open>veriplagio/app.py\<close> is total: every exception of the \<open>try\<close> body
  is a value \<open>Inl e\<close> of \<open>try_parse_line\<close> and is handled. The rebuilt text is the
  concatenation, in the order of the lines, of what each line contributes; a line
  that does not start with \<open>Trecho\<close> after trimming, and a line whose parsing raises,
  contributes itself followed by a newline, and no span.
\<close>

theorem parse_report_passes_lines_through:
  "fst (parse_report deepseek_result)
     = concat (map (\<lambda>linha. fst (parse_line linha)) (py_splitlines deepseek_result))
   \<and> (\<forall>linha \<in> set (py_splitlines deepseek_result).
        (\<not> py_startswith (py_strip linha) (u ''Trecho'') \<or> (\<exists>e. try_parse_line linha = Inl e))
        \<longrightarrow> parse_line linha = (linha @ [10], []))"
  by (auto simp: parse_report_def parse_loop_concat parse_line_def)

theorem parse_report_passes_lines_through_witness:
  "set (py_splitlines (u ''Resumo\<newline>Trecho sem marcador'')) = {u ''Resumo'', u ''Trecho sem marcador''}
   \<and> \<not> py_startswith (py_strip (u ''Resumo'')) (u ''Trecho'')
   \<and> try_parse_line (u ''Trecho sem marcador'') = Inl IndexError
   \<and> parse_line (u ''Resumo'') = (u ''Resumo\<newline>'', [])
   \<and> parse_line (u ''Trecho sem marcador'') = (u ''Trecho sem marcador\<newline>'', [])
   \<and> fst (parse_report (u ''Resumo\<newline>Trecho sem marcador''))
       = u ''Resumo\<newline>Trecho sem marcador\<newline>''"
proof -
  have lines: "py_splitlines (u ''Resumo\<newline>Trecho sem marcador'')
      = [u ''Resumo'', u ''Trecho sem marcador'']"
    by (simp add: string_ops)
  have a: "\<not> py_startswith (py_strip (u ''Resumo'')) (u ''Trecho'')"
    by (simp add: string_ops)
  have b: "try_parse_line (u ''Trecho sem marcador'') = Inl IndexError"
    by (simp add: try_parse_line_def string_ops)
  have c: "parse_line (u ''Resumo'') = (u ''Resumo'' @ [10], [])"
    using parse_report_passes_lines_through [of "u ''Resumo\<newline>Trecho sem marcador''"] a
    by (simp add: lines)
  have d: "parse_line (u ''Trecho sem marcador'') = (u ''Trecho sem marcador'' @ [10], [])"
    using parse_report_passes_lines_through [of "u ''Resumo\<newline>Trecho sem marcador''"] b
    by (simp add: lines)
  have e: "fst (parse_report (u ''Resumo\<newline>Trecho sem marcador''))
      = u ''Resumo'' @ [10] @ u ''Trecho sem marcador'' @ [10]"
    using parse_report_passes_lines_through [of "u ''Resumo\<newline>Trecho sem marcador''"]
    by (simp add: lines c d)
  show ?thesis
    using a b c d e by (simp add: lines) (simp add: u_def)
qed

text \<open>
  C5. On the line \<open>Trecho: hello world - Fonte: http://x.test\<close> the parser of
  \<open>app.py\<close> does not keep the source written on the line: it asks the resolver, and
  when the search gives no reply the span carries the sentinel instead of
  \<open>http://x.test\<close>.
\<close>

theorem parse_report_app_ignores_written_source:
  "snd (fst (parse_report_app str_unused (world_replying NoResponse)
       (u ''Trecho: hello world - Fonte: http://x.test'')))
     = [\<lparr>trecho = u ''hello world'', fonte = PStr fonte_nao_encontrada\<rparr>]
   \<and> PStr fonte_nao_encontrada \<noteq> PStr (u ''http://x.test'')"
  by (simp add: parse_report_app_def parse_line_app_def try_parse_line_app_def string_ops
      get_source_from_serpapi_app_def serpapi_try_app_def requests_get_def world_replying_def
      fonte_nao_encontrada_def)

text \<open>
  C5, amended. On that line both parsers produce exactly one span with the excerpt
  \<open>hello world\<close>. In \<open>veriplagio/app.py\<close> its source is \<open>http://x.test\<close>, and the
  line is rebuilt unchanged; in \<open>app.py\<close> its source is what the resolver returns for
  \<open>hello world\<close>, whatever the world and the formatting of non-strings.
\<close>

theorem parse_report_hello_world:
  "parse_report (u ''Trecho: hello world - Fonte: http://x.test'')
     = (u ''Trecho: hello world - Fonte: http://x.test\<newline>'',
        [\<lparr>trecho = u ''hello world'', fonte = PStr (u ''http://x.test'')\<rparr>])
   \<and> (\<exists>v w'. get_source_from_serpapi_app w (u ''hello world'') = (Inr v, w')
        \<and> snd (fst (parse_report_app str_of w (u ''Trecho: hello world - Fonte: http://x.test'')))
          = [\<lparr>trecho = u ''hello world'', fonte = v\<rparr>])"
proof -
  have a: "parse_report (u ''Trecho: hello world - Fonte: http://x.test'')
     = (u ''Trecho: hello world - Fonte: http://x.test\<newline>'',
        [\<lparr>trecho = u ''hello world'', fonte = PStr (u ''http://x.test'')\<rparr>])"
    by (simp add: parse_report_def parse_line_def try_parse_line_def string_ops)
  obtain v w' where res: "get_source_from_serpapi_app w (u ''hello world'') = (Inr v, w')"
    using get_source_app_pair by blast
  have hw: "u ''hello world'' = [104, 101, 108, 108, 111, 32, 119, 111, 114, 108, 100]"
    by (simp add: u_def)
  have "snd (fst (parse_report_app str_of w (u ''Trecho: hello world - Fonte: http://x.test'')))
          = [\<lparr>trecho = u ''hello world'', fonte = v\<rparr>]"
    using res unfolding hw
    by (simp add: parse_report_app_def parse_line_app_def try_parse_line_app_def string_ops)
  with a res show ?thesis by blast
qed




subsection \<open>The analysis client\<close>

text \<open>
  C8. When the reply to the request has a status code other than 200 (every
  non-success code is one), both variants of \<open>analyze_plagiarism_with_source\<close>
  return the error string naming that code with an empty list of spans, and the world
  afterwards differs from the one before by exactly one POST: nothing is sent again.
\<close>

theorem analyze_plagiarism_error_status:
  "post_reply w (posts w) text = Response status_code body \<Longrightarrow> status_code \<noteq> 200 \<Longrightarrow>
   analyze_plagiarism_with_source w text
     = (Inr (u ''Erro na API DeepSeek (status: '' @ py_str_int status_code @ u '')'', []),
        w\<lparr>posts := posts w + 1\<rparr>)
   \<and> analyze_plagiarism_with_source_app str_of w text
     = (Inr (u ''Erro na API DeepSeek (status: '' @ py_str_int status_code @ u '')'', []),
        w\<lparr>posts := posts w + 1\<rparr>)"
  by (simp add: analyze_plagiarism_with_source_def analyze_plagiarism_with_source_app_def
      requests_post_def erro_na_api_def)

theorem analyze_plagiarism_error_status_witness:
  "post_reply (world_replying (Response 503 None)) (posts (world_replying (Response 503 None)))
       (u ''abc'') = Response 503 None
   \<and> (503 :: int) \<noteq> 200
   \<and> analyze_plagiarism_with_source (world_replying (Response 503 None)) (u ''abc'')
     = (Inr (u ''Erro na API DeepSeek (status: 503)'', []),
        (world_replying (Response 503 None))\<lparr>posts := 1\<rparr>)"
proof -
  have h: "post_reply (world_replying (Response 503 None))
      (posts (world_replying (Response 503 None))) (u ''abc'') = Response 503 None"
    by (simp add: world_replying_def)
  have n: "(503 :: int) \<noteq> 200" by simp
  show ?thesis
    using h analyze_plagiarism_error_status [OF h n, of "\<lambda>v. []"]
    by (simp add: world_replying_def py_str_int_def u_def)
qed

subsection \<open>The report stub\<close>

text \<open>
  C9. \<open>verificar_plagio_relatorio\<close> returns, for every text, the fixed list of results
  and the total similarity \<open>15.8\<close>; two texts get the same list and the same total.
  Only the first component depends on the text: it is its word count, the number of
  non-empty pieces between whitespace (3 for \<open>um  dois\<close>, a line break, \<open>tres \<close>).
\<close>

theorem verificar_plagio_relatorio_ignores_input:
  "snd (verificar_plagio_relatorio texto1) = snd (verificar_plagio_relatorio texto2)
   \<and> verificar_plagio_relatorio texto1
     = (word_count texto1, nearest_float (158 / 10), resultados)
   \<and> nearest_float (158 / 10) = 4447304632028365 / 281474976710656
   \<and> map (\<lambda>r. (termos r, termos_comuns r, similitude r)) resultados
     = [(1494, 129, nearest_float (37 / 10)), (999, 88, nearest_float (21 / 10)),
        (2000, 300, nearest_float 10)]
   \<and> fst (verificar_plagio_relatorio (u ''um  dois\<newline>tres '')) = 3
   \<and> fst (verificar_plagio_relatorio []) = 0"
proof -
  have a: "verificar_plagio_relatorio t = (word_count t, nearest_float (158 / 10), resultados)" for t
    by (simp add: verificar_plagio_relatorio_def total_similaridade_value length_py_split)
  have b: "word_count (u ''um  dois\<newline>tres '') = 3" "word_count [] = 0"
    by (simp_all add: word_count_def u_def is_space_def)
  have c: "map (\<lambda>r. (termos r, termos_comuns r, similitude r)) resultados
     = [(1494, 129, nearest_float (37 / 10)), (999, 88, nearest_float (21 / 10)),
        (2000, 300, nearest_float 10)]"
    by (simp add: resultados_def)
  show ?thesis
    using float_15_8 c by (simp add: a b)
qed

end
